theory Spec2Isabelle
  imports Complex_Main "HOL-Library.Word" "HOL-Library.Sublist"
begin

section \<open>The master command of SeaweedFS (weed/command/master.go)\<close>

text \<open>
  The file embeds \<^verbatim>\<open>checkPeers\<close>, \<^verbatim>\<open>toMasterOption\<close>, \<^verbatim>\<open>startMaster\<close> and
  \<^verbatim>\<open>runMaster\<close>. Go's \<^verbatim>\<open>string\<close> is a byte sequence and is modelled as
  \<^typ>\<open>string\<close>; a \<^verbatim>\<open>[]string\<close> is a \<^typ>\<open>string list\<close>, the nil slice being
  the empty list; \<^verbatim>\<open>int\<close> and \<^verbatim>\<open>uint\<close> are the 64-bit machine integers of
  the platforms the server is built for, read with \<^const>\<open>sint\<close> and \<^const>\<open>unat\<close>.
\<close>

subsection \<open>The library functions the file calls\<close>

text \<open>
  \<^verbatim>\<open>strings.Split(s, sep)\<close> for a one-byte separator: the substrings between the
  separators, in order. A string without separator (the empty string too) gives the
  one-element slice holding the string itself.
\<close>

fun Split :: "string \<Rightarrow> char \<Rightarrow> string list" where
  "Split [] sep = [[]]"
| "Split (c # s) sep =
     (if c = sep then [] # Split s sep
      else (case Split s sep of [] \<Rightarrow> [[c]] | w # ws \<Rightarrow> (c # w) # ws))"

text \<open>
  \<^verbatim>\<open>strconv.Itoa\<close>: the decimal digits of a machine integer, most significant first,
  with a leading minus sign for a negative value.
\<close>

definition digit :: "nat \<Rightarrow> char" where
  "digit d = ''0123456789'' ! d"

function formatBits :: "nat \<Rightarrow> string" where
  "formatBits u = (if u < 10 then [digit u] else formatBits (u div 10) @ [digit (u mod 10)])"
  by pat_completeness auto
termination
  by (relation "measure (\<lambda>u. u)") auto

declare formatBits.simps [simp del]

definition Itoa :: "64 word \<Rightarrow> string" where
  "Itoa i = (if sint i < 0 then CHR ''-'' # formatBits (nat (- sint i))
             else formatBits (nat (sint i)))"

subsection \<open>checkPeers\<close>

text \<open>
  \<^verbatim>\<open>glog.Fatalf\<close> writes its message and ends the process; the caller gets nothing
  back. A call that ends so is the left injection, holding the format string.
\<close>

type_synonym fatal = string

text \<open>The scan for the own address, leaving the loop at the first match.\<close>

fun hasSelf :: "string list \<Rightarrow> string \<Rightarrow> bool" where
  "hasSelf [] masterAddress = False"
| "hasSelf (peer # rest) masterAddress =
     (if peer = masterAddress then True else hasSelf rest masterAddress)"

definition checkPeers :: "string \<Rightarrow> 64 word \<Rightarrow> string \<Rightarrow> fatal + string \<times> string list" where
  "checkPeers masterIp masterPort peers =
     (let masterAddress = masterIp @ '':'' @ Itoa masterPort;
          cleanedPeers = (if peers \<noteq> [] then Split peers CHR '','' else []);
          cleanedPeers = (if \<not> hasSelf cleanedPeers masterAddress
                          then cleanedPeers @ [masterAddress] else cleanedPeers)
      in if length cleanedPeers mod 2 = 0
         then Inl ''Only odd number of masters are supported!''
         else Inr (masterAddress, cleanedPeers))"

subsection \<open>The options\<close>

text \<open>
  \<^verbatim>\<open>MasterOptions\<close> holds the values of the command's flags (the pointers of the
  source are read once, after flag parsing, and never written). The threshold is a
  \<^verbatim>\<open>float64\<close> that the file only copies, so its type is left open.
\<close>

record 'f MasterOptions =
  port :: "64 word"
  ip :: string
  ipBind :: string
  metaFolder :: string
  peers :: string
  volumeSizeLimitMB :: "64 word"
  volumePreallocate :: bool
  pulseSeconds :: "64 word"
  defaultReplication :: string
  garbageThreshold :: 'f
  whiteList :: string
  disableHttp :: bool
  metricsAddress :: string
  metricsIntervalSec :: "64 word"
  sequencerType :: string
  etcdUrls :: string

text \<open>The values \<^verbatim>\<open>init\<close> registers as the flags' defaults (the meta folder is
  \<^verbatim>\<open>os.TempDir()\<close>, here \<^verbatim>\<open>/tmp\<close>).\<close>

definition flagDefaults :: "real MasterOptions" where
  "flagDefaults =
     \<lparr>port = 9333, ip = ''localhost'', ipBind = ''0.0.0.0'', metaFolder = ''/tmp'',
      peers = [], volumeSizeLimitMB = 30 * 1000, volumePreallocate = False,
      pulseSeconds = 5, defaultReplication = ''000'', garbageThreshold = 0.3,
      whiteList = [], disableHttp = False, metricsAddress = [],
      metricsIntervalSec = 15, sequencerType = ''memory'', etcdUrls = []\<rparr>"

text \<open>\<^verbatim>\<open>weed_server.MasterOption\<close>, with the fields the composite literal of
  \<^verbatim>\<open>toMasterOption\<close> names.\<close>

record 'f MasterOption =
  Port :: "64 word"
  MetaFolder :: string
  VolumeSizeLimitMB :: "64 word"
  VolumePreallocate :: bool
  PulseSeconds :: "64 word"
  DefaultReplicaPlacement :: string
  GarbageThreshold :: 'f
  WhiteList :: "string list"
  DisableHttp :: bool
  MetricsAddress :: string
  MetricsIntervalSec :: "64 word"

definition toMasterOption :: "'f MasterOptions \<Rightarrow> string list \<Rightarrow> 'f MasterOption" where
  "toMasterOption m whiteList' =
     \<lparr>Port = port m,
      MetaFolder = metaFolder m,
      VolumeSizeLimitMB = volumeSizeLimitMB m,
      VolumePreallocate = volumePreallocate m,
      PulseSeconds = pulseSeconds m,
      DefaultReplicaPlacement = defaultReplication m,
      GarbageThreshold = garbageThreshold m,
      WhiteList = whiteList',
      DisableHttp = disableHttp m,
      MetricsAddress = metricsAddress m,
      MetricsIntervalSec = metricsIntervalSec m\<rparr>"

subsection \<open>The collaborators and what a run leaves behind\<close>

text \<open>
  The functions of other packages that can fail are parameters of the model: whether
  \<^verbatim>\<open>util.TestFolderWritable\<close> returns nil for a folder, whether
  \<^verbatim>\<open>util.NewListener\<close> binds an address, whether \<^verbatim>\<open>weed_server.NewRaftServer\<close>
  returns a server for the peers, the own address and the folder it is given.
\<close>

record env =
  folderWritable :: "string \<Rightarrow> bool"
  listenerBinds :: "string \<Rightarrow> bool"
  raftServerStarts :: "string list \<Rightarrow> string \<Rightarrow> string \<Rightarrow> bool"

text \<open>An environment in which each of them succeeds.\<close>

definition obliging :: env where
  "obliging = \<lparr>folderWritable = (\<lambda>_. True), listenerBinds = (\<lambda>_. True),
                raftServerStarts = (\<lambda>_ _ _. True)\<rparr>"

text \<open>Modelled from the spec: the constant \<^verbatim>\<open>util.VolumeSizeLimitGB\<close> is declared in
  another file; the spec gives the ceiling as 30,000 MB, that is 30 for the constant.\<close>

definition VolumeSizeLimitGB :: "64 word" where
  "VolumeSizeLimitGB = 30"

text \<open>
  A run is recorded as the calls the main goroutine makes on other packages, in program
  order, each with the arguments that matter here. A \<^verbatim>\<open>go\<close> statement is recorded
  where it is executed; what the started goroutine does afterwards is not part of the
  record.
\<close>

datatype arg = VERSION | StrArg string | IntArg "64 word"

datatype 'f event =
    LoadConfiguration string bool
  | GOMAXPROCS
  | SetupProfiling
  | TestFolderWritable string
  | Fatalf string
  | NewRouter
  | NewMasterServer "'f MasterOption" "string list"
  | Infof string "arg list"
  | NewListener string
  | LoadClientTLS
  | NewRaftServer "string list" string string "64 word"
  | SetRaftServer
  | HandleFunc string
  | LoadServerTLS
  | NewGrpcServer
  | RegisterSeaweedServer
  | RegisterRaftServer
  | ReflectionRegister
  | GoGrpcServe string
  | GoKeepConnectedToMaster
  | GoHttpServe string

text \<open>How a run ends: the process is ended by \<^verbatim>\<open>glog.Fatalf\<close>, the goroutine stays
  blocked for ever, or the function returns to its caller.\<close>

datatype outcome = Fatal | Blocked | Returned

text \<open>\<^verbatim>\<open>select {}\<close>, a select without cases: no case can ever proceed. It is the
  function that calls itself, which has no value to return.\<close>

partial_function (option) select_empty :: "unit \<Rightarrow> unit option" where
  "select_empty u = select_empty u"

subsection \<open>startMaster and runMaster\<close>

definition startMaster :: "env \<Rightarrow> 'f MasterOptions \<Rightarrow> string list \<Rightarrow> 'f event list \<times> outcome" where
  "startMaster e masterOption masterWhiteList =
     (case checkPeers (ip masterOption) (port masterOption) (peers masterOption) of
        Inl msg \<Rightarrow> ([Fatalf msg], Fatal)
      | Inr (myMasterAddress, peers') \<Rightarrow>
        (let listeningAddress = ipBind masterOption @ '':'' @ Itoa (port masterOption);
             t = [NewRouter,
                  NewMasterServer (toMasterOption masterOption masterWhiteList) peers',
                  Infof ''Start Seaweed Master %s at %s'' [VERSION, StrArg listeningAddress],
                  NewListener listeningAddress]
         in if \<not> listenerBinds e listeningAddress
            then (t @ [Fatalf ''Master startup error: %v''], Fatal)
            else
        (let t = t @ [LoadClientTLS,
                      NewRaftServer peers' myMasterAddress (metaFolder masterOption)
                        (pulseSeconds masterOption)]
         in if \<not> raftServerStarts e peers' myMasterAddress (metaFolder masterOption)
            then (t @ [Fatalf ''please verify %s is writable, see https://github.com/chrislusf/seaweedfs/issues/717''], Fatal)
            else
        (let grpcPort = port masterOption + 10000;
             grpcAddress = ipBind masterOption @ '':'' @ Itoa grpcPort;
             t = t @ [SetRaftServer, HandleFunc ''/cluster/status'', NewListener grpcAddress]
         in if \<not> listenerBinds e grpcAddress
            then (t @ [Fatalf ''master failed to listen on grpc port %d: %v''], Fatal)
            else
        (let t = t @ [LoadServerTLS, NewGrpcServer, RegisterSeaweedServer,
                      RegisterRaftServer, ReflectionRegister,
                      Infof ''Start Seaweed Master %s grpc server at %s:%d''
                        [VERSION, StrArg (ipBind masterOption), IntArg grpcPort],
                      GoGrpcServe grpcAddress,
                      GoKeepConnectedToMaster,
                      GoHttpServe listeningAddress]
         in (t, case select_empty () of None \<Rightarrow> Blocked | Some _ \<Rightarrow> Returned))))))"

definition runMaster :: "env \<Rightarrow> 'f MasterOptions \<Rightarrow> 'f event list \<times> outcome" where
  "runMaster e m =
     (let t = [LoadConfiguration ''security'' False, LoadConfiguration ''master'' False,
               GOMAXPROCS, SetupProfiling, TestFolderWritable (metaFolder m)]
      in if \<not> folderWritable e (metaFolder m)
         then (t @ [Fatalf ''Check Meta Folder (-mdir) Writable %s : %s''], Fatal)
         else
     (let masterWhiteList = (if whiteList m \<noteq> [] then Split (whiteList m) CHR '','' else [])
      in if VolumeSizeLimitGB * 1000 < volumeSizeLimitMB m
         then (t @ [Fatalf ''volumeSizeLimitMB should be smaller than 30000''], Fatal)
         else
     (case startMaster e m masterWhiteList of (t', how) \<Rightarrow> (t @ t', how))))"

subsection \<open>Reading the record of a run\<close>

text \<open>The kinds of call the properties speak about.\<close>

fun is_writable_check :: "'f event \<Rightarrow> bool" where
  "is_writable_check (TestFolderWritable d) = True"
| "is_writable_check _ = False"

fun is_bind :: "'f event \<Rightarrow> bool" where
  "is_bind (NewListener a) = True"
| "is_bind _ = False"

fun is_management_construct :: "'f event \<Rightarrow> bool" where
  "is_management_construct (NewMasterServer opt ps) = True"
| "is_management_construct _ = False"

fun is_raft_construct :: "'f event \<Rightarrow> bool" where
  "is_raft_construct (NewRaftServer ps a d s) = True"
| "is_raft_construct _ = False"

fun is_wiring :: "'f event \<Rightarrow> bool" where
  "is_wiring SetRaftServer = True"
| "is_wiring _ = False"

fun is_registration :: "'f event \<Rightarrow> bool" where
  "is_registration RegisterSeaweedServer = True"
| "is_registration RegisterRaftServer = True"
| "is_registration ReflectionRegister = True"
| "is_registration _ = False"

fun is_serve :: "'f event \<Rightarrow> bool" where
  "is_serve (GoGrpcServe a) = True"
| "is_serve (GoHttpServe a) = True"
| "is_serve _ = False"

fun is_go :: "'f event \<Rightarrow> bool" where
  "is_go (GoGrpcServe a) = True"
| "is_go GoKeepConnectedToMaster = True"
| "is_go (GoHttpServe a) = True"
| "is_go _ = False"

text \<open>The management service and the raft service being constructed or attached.\<close>

definition is_service_step :: "'f event \<Rightarrow> bool" where
  "is_service_step ev \<longleftrightarrow> is_management_construct ev \<or> is_raft_construct ev \<or> is_wiring ev"

text \<open>The RPC server being constructed and the services being attached to it.\<close>

definition is_rpc_step :: "'f event \<Rightarrow> bool" where
  "is_rpc_step ev \<longleftrightarrow> ev = NewGrpcServer \<or> is_registration ev"

text \<open>
  \<open>all_before P Q t\<close>: in the record \<open>t\<close> every call of kind \<open>P\<close> comes strictly
  before every call of kind \<open>Q\<close>; from a \<open>Q\<close> on, there is no \<open>P\<close> any more.
\<close>

fun all_before :: "('a \<Rightarrow> bool) \<Rightarrow> ('a \<Rightarrow> bool) \<Rightarrow> 'a list \<Rightarrow> bool" where
  "all_before P Q [] = True"
| "all_before P Q (x # xs) = ((Q x \<longrightarrow> \<not> P x \<and> (\<forall>y \<in> set xs. \<not> P y)) \<and> all_before P Q xs)"

text \<open>An environment in which the meta folder cannot be written.\<close>

definition unwritable :: env where
  "unwritable = obliging\<lparr>folderWritable := (\<lambda>_. False)\<rparr>"

section \<open>Properties\<close>

subsection \<open>Facts about the library functions and the peer check\<close>

lemma hasSelf_iff: "hasSelf ps a \<longleftrightarrow> a \<in> set ps"
  by (induction ps) auto

lemma mod_2_eq_0_even: "(n::nat) mod 2 = 0 \<longleftrightarrow> even n"
  by presburger

lemma checkPeers_eq:
  "checkPeers selfIP selfPort L =
     (let S = selfIP @ '':'' @ Itoa selfPort;
          C = (if L = [] then [] else Split L CHR '','');
          R = (if S \<in> set C then C else C @ [S])
      in if even (length R) then Inl ''Only odd number of masters are supported!''
         else Inr (S, R))"
  by (simp add: checkPeers_def Let_def hasSelf_iff mod_2_eq_0_even)

lemma count_list_snoc_absent: "S \<notin> set C \<Longrightarrow> count_list (C @ [S]) S = Suc 0"
  by (induction C) auto

lemma Itoa_2: "Itoa 2 = ''2''"
  by (simp add: Itoa_def formatBits.simps digit_def)

lemma Itoa_9333: "Itoa 9333 = ''9333''"
  by (simp add: Itoa_def formatBits.simps digit_def)

lemma Itoa_19333: "Itoa 19333 = ''19333''"
  by (simp add: Itoa_def formatBits.simps digit_def)

lemma limit_check: "VolumeSizeLimitGB * 1000 < (x :: 64 word) \<longleftrightarrow> 30000 < unat x"
  by (simp add: VolumeSizeLimitGB_def word_less_nat_alt)

lemma grpc_no_wrap:
  "sint (p :: 64 word) \<le> 9223372036854765807 \<Longrightarrow> sint (p + 10000) = sint p + 10000"
proof -
  assume b: "sint p \<le> 9223372036854765807"
  have lo: "- (2 ^ 63) \<le> sint p" using sint_ge [of p] by simp
  have "sint (p + 10000) = signed_take_bit 63 (sint p + sint (10000 :: 64 word))"
    by (simp add: sint_word_ariths)
  also have "sint (10000 :: 64 word) = 10000" by simp
  also have "signed_take_bit 63 (sint p + 10000) = sint p + 10000"
    using lo b by (intro signed_take_bit_int_eq_self) auto
  finally show ?thesis .
qed

subsection \<open>Facts about the record of a run\<close>

text \<open>The empty select has no result.\<close>

lemma select_empty_no_result:
  assumes "select_empty u = Some y"
  shows False
  by (rule select_empty.raw_induct [where P = "\<lambda>_ _. False", OF _ assms]) blast

lemma select_empty_None: "select_empty u = None"
  using select_empty_no_result by (cases "select_empty u") auto

text \<open>What \<^const>\<open>all_before\<close> says, in positions of the record.\<close>

lemma all_before_nth:
  "all_before P Q t \<longleftrightarrow>
     (\<forall>i j. i < length t \<and> j < length t \<and> P (t ! i) \<and> Q (t ! j) \<longrightarrow> i < j)"
proof (induction t)
  case Nil
  then show ?case by simp
next
  case (Cons x xs)
  show ?case
  proof
    assume L: "all_before P Q (x # xs)"
    show "\<forall>i j. i < length (x # xs) \<and> j < length (x # xs) \<and> P ((x # xs) ! i) \<and> Q ((x # xs) ! j) \<longrightarrow> i < j"
    proof (intro allI impI)
      fix i j
      assume H: "i < length (x # xs) \<and> j < length (x # xs) \<and> P ((x # xs) ! i) \<and> Q ((x # xs) ! j)"
      show "i < j"
      proof (cases j)
        case 0
        with H L show ?thesis by (cases i) auto
      next
        case (Suc j')
        with H L Cons.IH show ?thesis by (cases i) auto
      qed
    qed
  next
    assume R: "\<forall>i j. i < length (x # xs) \<and> j < length (x # xs) \<and> P ((x # xs) ! i) \<and> Q ((x # xs) ! j) \<longrightarrow> i < j"
    have "all_before P Q xs"
    proof -
      have "\<forall>i j. i < length xs \<and> j < length xs \<and> P (xs ! i) \<and> Q (xs ! j) \<longrightarrow> i < j"
      proof (intro allI impI)
        fix i j
        assume "i < length xs \<and> j < length xs \<and> P (xs ! i) \<and> Q (xs ! j)"
        with R [rule_format, of "Suc i" "Suc j"] show "i < j" by simp
      qed
      with Cons.IH show ?thesis by simp
    qed
    moreover have "Q x \<Longrightarrow> \<not> P x"
      using R [rule_format, of 0 0] by auto
    moreover have "Q x \<Longrightarrow> y \<in> set xs \<Longrightarrow> \<not> P y" for y
    proof
      assume "Q x" "y \<in> set xs" "P y"
      then obtain k where "k < length xs" "xs ! k = y" by (auto simp: in_set_conv_nth)
      with \<open>Q x\<close> \<open>P y\<close> R [rule_format, of "Suc k" 0] show False by simp
    qed
    ultimately show "all_before P Q (x # xs)" by auto
  qed
qed

text \<open>\<^verbatim>\<open>startMaster\<close> and \<^verbatim>\<open>runMaster\<close>, path by path.\<close>

lemma startMaster_fatal_peers:
  "checkPeers (ip m) (port m) (peers m) = Inl msg \<Longrightarrow>
     startMaster e m wl = ([Fatalf msg], Fatal)"
  by (simp add: startMaster_def)

lemma startMaster_with_peers:
  "checkPeers (ip m) (port m) (peers m) = Inr (a, ps) \<Longrightarrow>
   startMaster e m wl =
     (if \<not> listenerBinds e (ipBind m @ '':'' @ Itoa (port m)) then
        ([NewRouter, NewMasterServer (toMasterOption m wl) ps,
          Infof ''Start Seaweed Master %s at %s''
            [VERSION, StrArg (ipBind m @ '':'' @ Itoa (port m))],
          NewListener (ipBind m @ '':'' @ Itoa (port m)),
          Fatalf ''Master startup error: %v''], Fatal)
      else if \<not> raftServerStarts e ps a (metaFolder m) then
        ([NewRouter, NewMasterServer (toMasterOption m wl) ps,
          Infof ''Start Seaweed Master %s at %s''
            [VERSION, StrArg (ipBind m @ '':'' @ Itoa (port m))],
          NewListener (ipBind m @ '':'' @ Itoa (port m)),
          LoadClientTLS, NewRaftServer ps a (metaFolder m) (pulseSeconds m),
          Fatalf ''please verify %s is writable, see https://github.com/chrislusf/seaweedfs/issues/717''],
         Fatal)
      else if \<not> listenerBinds e (ipBind m @ '':'' @ Itoa (port m + 10000)) then
        ([NewRouter, NewMasterServer (toMasterOption m wl) ps,
          Infof ''Start Seaweed Master %s at %s''
            [VERSION, StrArg (ipBind m @ '':'' @ Itoa (port m))],
          NewListener (ipBind m @ '':'' @ Itoa (port m)),
          LoadClientTLS, NewRaftServer ps a (metaFolder m) (pulseSeconds m),
          SetRaftServer, HandleFunc ''/cluster/status'',
          NewListener (ipBind m @ '':'' @ Itoa (port m + 10000)),
          Fatalf ''master failed to listen on grpc port %d: %v''], Fatal)
      else
        ([NewRouter, NewMasterServer (toMasterOption m wl) ps,
          Infof ''Start Seaweed Master %s at %s''
            [VERSION, StrArg (ipBind m @ '':'' @ Itoa (port m))],
          NewListener (ipBind m @ '':'' @ Itoa (port m)),
          LoadClientTLS, NewRaftServer ps a (metaFolder m) (pulseSeconds m),
          SetRaftServer, HandleFunc ''/cluster/status'',
          NewListener (ipBind m @ '':'' @ Itoa (port m + 10000)),
          LoadServerTLS, NewGrpcServer, RegisterSeaweedServer, RegisterRaftServer,
          ReflectionRegister,
          Infof ''Start Seaweed Master %s grpc server at %s:%d''
            [VERSION, StrArg (ipBind m), IntArg (port m + 10000)],
          GoGrpcServe (ipBind m @ '':'' @ Itoa (port m + 10000)),
          GoKeepConnectedToMaster,
          GoHttpServe (ipBind m @ '':'' @ Itoa (port m))], Blocked))"
  by (simp add: startMaster_def Let_def select_empty_None)

lemma runMaster_paths
  [case_names unwritable oversized even_peers http_bind_fails raft_fails grpc_bind_fails serving]:
  obtains
    "\<not> folderWritable e (metaFolder m)"
    "runMaster e m =
       ([LoadConfiguration ''security'' False, LoadConfiguration ''master'' False,
         GOMAXPROCS, SetupProfiling, TestFolderWritable (metaFolder m),
         Fatalf ''Check Meta Folder (-mdir) Writable %s : %s''], Fatal)"
  | "folderWritable e (metaFolder m)" "30000 < unat (volumeSizeLimitMB m)"
    "runMaster e m =
       ([LoadConfiguration ''security'' False, LoadConfiguration ''master'' False,
         GOMAXPROCS, SetupProfiling, TestFolderWritable (metaFolder m),
         Fatalf ''volumeSizeLimitMB should be smaller than 30000''], Fatal)"
  | msg where "folderWritable e (metaFolder m)" "unat (volumeSizeLimitMB m) \<le> 30000"
    "checkPeers (ip m) (port m) (peers m) = Inl msg"
    "runMaster e m =
       ([LoadConfiguration ''security'' False, LoadConfiguration ''master'' False,
         GOMAXPROCS, SetupProfiling, TestFolderWritable (metaFolder m),
         Fatalf msg], Fatal)"
  | a ps where "folderWritable e (metaFolder m)" "unat (volumeSizeLimitMB m) \<le> 30000"
    "checkPeers (ip m) (port m) (peers m) = Inr (a, ps)"
    "\<not> listenerBinds e (ipBind m @ '':'' @ Itoa (port m))"
    "runMaster e m =
       ([LoadConfiguration ''security'' False, LoadConfiguration ''master'' False,
         GOMAXPROCS, SetupProfiling, TestFolderWritable (metaFolder m),
         NewRouter,
         NewMasterServer
           (toMasterOption m (if whiteList m \<noteq> [] then Split (whiteList m) CHR '','' else []))
           ps,
         Infof ''Start Seaweed Master %s at %s''
           [VERSION, StrArg (ipBind m @ '':'' @ Itoa (port m))],
         NewListener (ipBind m @ '':'' @ Itoa (port m)),
         Fatalf ''Master startup error: %v''], Fatal)"
  | a ps where "folderWritable e (metaFolder m)" "unat (volumeSizeLimitMB m) \<le> 30000"
    "checkPeers (ip m) (port m) (peers m) = Inr (a, ps)"
    "listenerBinds e (ipBind m @ '':'' @ Itoa (port m))"
    "\<not> raftServerStarts e ps a (metaFolder m)"
    "runMaster e m =
       ([LoadConfiguration ''security'' False, LoadConfiguration ''master'' False,
         GOMAXPROCS, SetupProfiling, TestFolderWritable (metaFolder m),
         NewRouter,
         NewMasterServer
           (toMasterOption m (if whiteList m \<noteq> [] then Split (whiteList m) CHR '','' else []))
           ps,
         Infof ''Start Seaweed Master %s at %s''
           [VERSION, StrArg (ipBind m @ '':'' @ Itoa (port m))],
         NewListener (ipBind m @ '':'' @ Itoa (port m)),
         LoadClientTLS, NewRaftServer ps a (metaFolder m) (pulseSeconds m),
         Fatalf ''please verify %s is writable, see https://github.com/chrislusf/seaweedfs/issues/717''],
        Fatal)"
  | a ps where "folderWritable e (metaFolder m)" "unat (volumeSizeLimitMB m) \<le> 30000"
    "checkPeers (ip m) (port m) (peers m) = Inr (a, ps)"
    "listenerBinds e (ipBind m @ '':'' @ Itoa (port m))"
    "raftServerStarts e ps a (metaFolder m)"
    "\<not> listenerBinds e (ipBind m @ '':'' @ Itoa (port m + 10000))"
    "runMaster e m =
       ([LoadConfiguration ''security'' False, LoadConfiguration ''master'' False,
         GOMAXPROCS, SetupProfiling, TestFolderWritable (metaFolder m),
         NewRouter,
         NewMasterServer
           (toMasterOption m (if whiteList m \<noteq> [] then Split (whiteList m) CHR '','' else []))
           ps,
         Infof ''Start Seaweed Master %s at %s''
           [VERSION, StrArg (ipBind m @ '':'' @ Itoa (port m))],
         NewListener (ipBind m @ '':'' @ Itoa (port m)),
         LoadClientTLS, NewRaftServer ps a (metaFolder m) (pulseSeconds m),
         SetRaftServer, HandleFunc ''/cluster/status'',
         NewListener (ipBind m @ '':'' @ Itoa (port m + 10000)),
         Fatalf ''master failed to listen on grpc port %d: %v''], Fatal)"
  | a ps where "folderWritable e (metaFolder m)" "unat (volumeSizeLimitMB m) \<le> 30000"
    "checkPeers (ip m) (port m) (peers m) = Inr (a, ps)"
    "listenerBinds e (ipBind m @ '':'' @ Itoa (port m))"
    "raftServerStarts e ps a (metaFolder m)"
    "listenerBinds e (ipBind m @ '':'' @ Itoa (port m + 10000))"
    "runMaster e m =
       ([LoadConfiguration ''security'' False, LoadConfiguration ''master'' False,
         GOMAXPROCS, SetupProfiling, TestFolderWritable (metaFolder m),
         NewRouter,
         NewMasterServer
           (toMasterOption m (if whiteList m \<noteq> [] then Split (whiteList m) CHR '','' else []))
           ps,
         Infof ''Start Seaweed Master %s at %s''
           [VERSION, StrArg (ipBind m @ '':'' @ Itoa (port m))],
         NewListener (ipBind m @ '':'' @ Itoa (port m)),
         LoadClientTLS, NewRaftServer ps a (metaFolder m) (pulseSeconds m),
         SetRaftServer, HandleFunc ''/cluster/status'',
         NewListener (ipBind m @ '':'' @ Itoa (port m + 10000)),
         LoadServerTLS, NewGrpcServer, RegisterSeaweedServer, RegisterRaftServer,
         ReflectionRegister,
         Infof ''Start Seaweed Master %s grpc server at %s:%d''
           [VERSION, StrArg (ipBind m), IntArg (port m + 10000)],
         GoGrpcServe (ipBind m @ '':'' @ Itoa (port m + 10000)),
         GoKeepConnectedToMaster,
         GoHttpServe (ipBind m @ '':'' @ Itoa (port m))], Blocked)"
proof (cases "folderWritable e (metaFolder m)")
  case False
  then show thesis
    using that(1) by (simp add: runMaster_def Let_def)
next
  case w: True
  show thesis
  proof (cases "30000 < unat (volumeSizeLimitMB m)")
    case True
    with w show thesis
      using that(2) by (simp add: runMaster_def Let_def limit_check)
  next
    case False
    then have v: "unat (volumeSizeLimitMB m) \<le> 30000" by simp
    show thesis
    proof (cases "checkPeers (ip m) (port m) (peers m)")
      case (Inl msg)
      with w v show thesis
        using that(3) [of msg]
        by (simp add: runMaster_def Let_def limit_check startMaster_fatal_peers)
    next
      case (Inr r)
      obtain a ps where r: "r = (a, ps)" by (cases r)
      note c = Inr [unfolded r]
      note s = startMaster_with_peers [OF c, of e]
      consider "\<not> listenerBinds e (ipBind m @ '':'' @ Itoa (port m))"
        | "listenerBinds e (ipBind m @ '':'' @ Itoa (port m))"
          "\<not> raftServerStarts e ps a (metaFolder m)"
        | "listenerBinds e (ipBind m @ '':'' @ Itoa (port m))"
          "raftServerStarts e ps a (metaFolder m)"
          "\<not> listenerBinds e (ipBind m @ '':'' @ Itoa (port m + 10000))"
        | "listenerBinds e (ipBind m @ '':'' @ Itoa (port m))"
          "raftServerStarts e ps a (metaFolder m)"
          "listenerBinds e (ipBind m @ '':'' @ Itoa (port m + 10000))"
        by blast
      then show thesis
      proof cases
        case 1
        with w v c show thesis
          using that(4) [of a ps] by (simp add: runMaster_def Let_def limit_check s)
      next
        case 2
        with w v c show thesis
          using that(5) [of a ps] by (simp add: runMaster_def Let_def limit_check s)
      next
        case 3
        with w v c show thesis
          using that(6) [of a ps] by (simp add: runMaster_def Let_def limit_check s)
      next
        case 4
        with w v c show thesis
          using that(7) [of a ps] by (simp add: runMaster_def Let_def limit_check s)
      qed
    qed
  qed
qed

lemma startMaster_not_Returned: "snd (startMaster e m wl) \<noteq> Returned"
proof (cases "checkPeers (ip m) (port m) (peers m)")
  case (Inl msg)
  then show ?thesis by (simp add: startMaster_fatal_peers)
next
  case (Inr r)
  obtain a ps where "r = (a, ps)" by (cases r)
  with Inr show ?thesis by (simp add: startMaster_with_peers)
qed

text \<open>The run with the flags' defaults in the environment where every collaborator succeeds.\<close>

lemma checkPeers_localhost:
  "checkPeers ''localhost'' 9333 [] = Inr (''localhost:9333'', [''localhost:9333''])"
  by (simp add: checkPeers_eq Let_def Itoa_9333)

lemma default_run:
  "runMaster obliging flagDefaults =
     ([LoadConfiguration ''security'' False, LoadConfiguration ''master'' False,
       GOMAXPROCS, SetupProfiling, TestFolderWritable ''/tmp'',
       NewRouter,
       NewMasterServer (toMasterOption flagDefaults []) [''localhost:9333''],
       Infof ''Start Seaweed Master %s at %s'' [VERSION, StrArg ''0.0.0.0:9333''],
       NewListener ''0.0.0.0:9333'',
       LoadClientTLS,
       NewRaftServer [''localhost:9333''] ''localhost:9333'' ''/tmp'' 5,
       SetRaftServer, HandleFunc ''/cluster/status'',
       NewListener ''0.0.0.0:19333'',
       LoadServerTLS, NewGrpcServer, RegisterSeaweedServer, RegisterRaftServer,
       ReflectionRegister,
       Infof ''Start Seaweed Master %s grpc server at %s:%d''
         [VERSION, StrArg ''0.0.0.0'', IntArg 19333],
       GoGrpcServe ''0.0.0.0:19333'', GoKeepConnectedToMaster,
       GoHttpServe ''0.0.0.0:9333''],
      Blocked)"
proof -
  have m: "port flagDefaults = 9333" "ip flagDefaults = ''localhost''"
    "peers flagDefaults = []" "ipBind flagDefaults = ''0.0.0.0''"
    "metaFolder flagDefaults = ''/tmp''" "pulseSeconds flagDefaults = 5"
    "whiteList flagDefaults = []" "volumeSizeLimitMB flagDefaults = 30000"
    by (simp_all add: flagDefaults_def)
  have e: "folderWritable obliging = (\<lambda>_. True)" "listenerBinds obliging = (\<lambda>_. True)"
    "raftServerStarts obliging = (\<lambda>_ _ _. True)"
    by (simp_all add: obliging_def)
  have s: "startMaster obliging flagDefaults [] =
     ([NewRouter,
       NewMasterServer (toMasterOption flagDefaults []) [''localhost:9333''],
       Infof ''Start Seaweed Master %s at %s'' [VERSION, StrArg ''0.0.0.0:9333''],
       NewListener ''0.0.0.0:9333'',
       LoadClientTLS,
       NewRaftServer [''localhost:9333''] ''localhost:9333'' ''/tmp'' 5,
       SetRaftServer, HandleFunc ''/cluster/status'',
       NewListener ''0.0.0.0:19333'',
       LoadServerTLS, NewGrpcServer, RegisterSeaweedServer, RegisterRaftServer,
       ReflectionRegister,
       Infof ''Start Seaweed Master %s grpc server at %s:%d''
         [VERSION, StrArg ''0.0.0.0'', IntArg 19333],
       GoGrpcServe ''0.0.0.0:19333'', GoKeepConnectedToMaster,
       GoHttpServe ''0.0.0.0:9333''],
      Blocked)"
    by (simp add: startMaster_def m e checkPeers_localhost Let_def Itoa_9333 Itoa_19333
        select_empty_None)
  show ?thesis
    by (simp add: runMaster_def m e s Let_def limit_check)
qed

lemma obliging_constructs_management:
  assumes "checkPeers (ip m) (port m) (peers m) = Inr (a, ps)"
    and "unat (volumeSizeLimitMB m) \<le> 30000"
  shows "NewMasterServer
           (toMasterOption m (if whiteList m \<noteq> [] then Split (whiteList m) CHR '','' else []))
           ps \<in> set (fst (runMaster obliging m))"
  using assms
  by (cases rule: runMaster_paths [of obliging m]) (simp_all add: obliging_def)

subsection \<open>The peer list\<close>

text \<open>
  C1. Let \<open>S\<close> be the own address, the IP, a colon and the decimal port, and \<open>C\<close> the
  candidates: the comma-separated entries of the raw list \<open>L\<close>, none for the empty
  string. Whenever \<^verbatim>\<open>checkPeers\<close> returns, it returns \<open>S\<close> and a peer list that is
  \<open>C\<close> with \<open>S\<close> appended (one entry more than \<open>C\<close>, holding \<open>S\<close> exactly once) if
  \<open>S\<close> is not among the candidates, and \<open>C\<close> itself, repeated entries included, if it
  is. The only runs that return nothing are those the parity check ends.
\<close>

theorem checkPeers_self_inclusion:
  assumes "S = selfIP @ '':'' @ Itoa selfPort"
    and "C = (if L = [] then [] else Split L CHR '','')"
  shows "case checkPeers selfIP selfPort L of
           Inl msg \<Rightarrow> even (length (if S \<in> set C then C else C @ [S]))
         | Inr (a, ps) \<Rightarrow>
             a = S \<and>
             (S \<notin> set C \<longrightarrow> ps = C @ [S] \<and> length ps = length C + 1 \<and> count_list ps S = 1) \<and>
             (S \<in> set C \<longrightarrow> ps = C \<and> length ps = length C)"
proof -
  let ?R = "if S \<in> set C then C else C @ [S]"
  have eq: "checkPeers selfIP selfPort L =
      (if even (length ?R) then Inl ''Only odd number of masters are supported!'' else Inr (S, ?R))"
    unfolding assms checkPeers_eq Let_def ..
  show ?thesis
  proof (cases "even (length ?R)")
    case True
    with eq show ?thesis by simp
  next
    case False
    with eq count_list_snoc_absent [of S C] show ?thesis by simp
  qed
qed

theorem checkPeers_self_inclusion_witness:
  "checkPeers ''b'' 2 ''a:1,c:3'' = Inr (''b:2'', [''a:1'', ''c:3'', ''b:2'']) \<and>
   checkPeers ''b'' 2 ''a:1,b:2,a:1'' = Inr (''b:2'', [''a:1'', ''b:2'', ''a:1''])"
proof -
  have S: "''b:2'' = ''b'' @ '':'' @ Itoa 2"
    by (simp add: Itoa_2)
  have C1: "[''a:1'', ''c:3''] = (if ''a:1,c:3'' = [] then [] else Split ''a:1,c:3'' CHR '','')"
    by simp
  have C2: "[''a:1'', ''b:2'', ''a:1''] =
      (if ''a:1,b:2,a:1'' = [] then [] else Split ''a:1,b:2,a:1'' CHR '','')"
    by simp
  have "checkPeers ''b'' 2 ''a:1,c:3'' = Inr (''b:2'', [''a:1'', ''c:3'', ''b:2''])"
  proof (cases "checkPeers ''b'' 2 ''a:1,c:3''")
    case (Inl msg)
    with checkPeers_self_inclusion [OF S C1] show ?thesis by simp
  next
    case (Inr r)
    with checkPeers_self_inclusion [OF S C1] show ?thesis by (cases r) simp
  qed
  moreover have "checkPeers ''b'' 2 ''a:1,b:2,a:1'' = Inr (''b:2'', [''a:1'', ''b:2'', ''a:1''])"
  proof (cases "checkPeers ''b'' 2 ''a:1,b:2,a:1''")
    case (Inl msg)
    with checkPeers_self_inclusion [OF S C2] show ?thesis by simp
  next
    case (Inr r)
    with checkPeers_self_inclusion [OF S C2] show ?thesis by (cases r) simp
  qed
  ultimately show ?thesis ..
qed

text \<open>
  C2. Let \<open>R\<close> be the peer list after the own address has been added where it was
  missing. For every input, if \<open>R\<close> has an even number of entries, \<^verbatim>\<open>checkPeers\<close>
  ends the process with the fatal message and returns nothing; if the number is odd, it
  returns the own address and \<open>R\<close>. The raw list \<^verbatim>\<open>a:1\<close> with own address
  \<^verbatim>\<open>b:2\<close> is rejected, the empty raw list with own address \<^verbatim>\<open>b:2\<close> is accepted.
\<close>

theorem checkPeers_parity:
  "(let S = selfIP @ '':'' @ Itoa selfPort;
        C = (if L = [] then [] else Split L CHR '','');
        R = (if S \<in> set C then C else C @ [S])
    in (even (length R) \<longrightarrow>
          checkPeers selfIP selfPort L = Inl ''Only odd number of masters are supported!'') \<and>
       (odd (length R) \<longrightarrow> checkPeers selfIP selfPort L = Inr (S, R))) \<and>
   checkPeers ''b'' 2 ''a:1'' = Inl ''Only odd number of masters are supported!'' \<and>
   checkPeers ''b'' 2 [] = Inr (''b:2'', [''b:2''])"
proof -
  have "checkPeers ''b'' 2 ''a:1'' = Inl ''Only odd number of masters are supported!''"
    by (simp add: checkPeers_eq Itoa_2 Let_def)
  moreover have "checkPeers ''b'' 2 [] = Inr (''b:2'', [''b:2''])"
    by (simp add: checkPeers_eq Itoa_2 Let_def)
  ultimately show ?thesis
    by (simp add: checkPeers_eq [of selfIP selfPort L] Let_def)
qed

theorem checkPeers_parity_witness:
  "checkPeers ''10.0.0.1'' 9333 ''10.0.0.1:9333,10.0.0.2:9333'' =
     Inl ''Only odd number of masters are supported!'' \<and>
   checkPeers ''10.0.0.1'' 9333 ''10.0.0.1:9333,10.0.0.2:9333,10.0.0.3:9333'' =
     Inr (''10.0.0.1:9333'', [''10.0.0.1:9333'', ''10.0.0.2:9333'', ''10.0.0.3:9333''])"
proof -
  have two: "Split ''10.0.0.1:9333,10.0.0.2:9333'' CHR '','' =
      [''10.0.0.1:9333'', ''10.0.0.2:9333'']"
    by simp
  have three: "Split ''10.0.0.1:9333,10.0.0.2:9333,10.0.0.3:9333'' CHR '','' =
      [''10.0.0.1:9333'', ''10.0.0.2:9333'', ''10.0.0.3:9333'']"
    by simp
  from checkPeers_parity [of "''10.0.0.1''" 9333 "''10.0.0.1:9333,10.0.0.2:9333''"]
  have "checkPeers ''10.0.0.1'' 9333 ''10.0.0.1:9333,10.0.0.2:9333'' =
     Inl ''Only odd number of masters are supported!''"
    unfolding Let_def two Itoa_9333 by simp
  moreover
  from checkPeers_parity [of "''10.0.0.1''" 9333 "''10.0.0.1:9333,10.0.0.2:9333,10.0.0.3:9333''"]
  have "checkPeers ''10.0.0.1'' 9333 ''10.0.0.1:9333,10.0.0.2:9333,10.0.0.3:9333'' =
     Inr (''10.0.0.1:9333'', [''10.0.0.1:9333'', ''10.0.0.2:9333'', ''10.0.0.3:9333''])"
    unfolding Let_def three Itoa_9333 by simp
  ultimately show ?thesis ..
qed

text \<open>
  C3. With the empty string as raw peer list, whatever the address and the port,
  \<^verbatim>\<open>checkPeers\<close> returns the own address and the peer list holding just that address:
  the empty string is no candidate at all, not one empty candidate.
\<close>

theorem checkPeers_empty_peers:
  "checkPeers selfIP selfPort [] =
     Inr (selfIP @ '':'' @ Itoa selfPort, [selfIP @ '':'' @ Itoa selfPort])"
  by (simp add: checkPeers_def Let_def)

subsection \<open>The bootstrap\<close>

text \<open>
  C4. For every configured port \<open>P\<close> and every environment, the listeners a run binds
  are, in this order, the management listener at \<^verbatim>\<open>ipBind:P\<close> and the RPC listener at
  \<^verbatim>\<open>ipBind:(P + 10000)\<close>, and no other; a run that reaches the serve calls has bound
  both, logs the RPC port \<open>P + 10000\<close> and serves gRPC on that listener. The sum is
  Go's \<^verbatim>\<open>int\<close> addition; it is the integer \<open>P + 10000\<close> for every port up to
  \<open>2\<^sup>6\<^sup>3 - 10001\<close>, so for every valid TCP port (0 to 65535).
\<close>

theorem grpc_port_offset:
  "prefix (filter is_bind (fst (runMaster e m)))
     [NewListener (ipBind m @ '':'' @ Itoa (port m)),
      NewListener (ipBind m @ '':'' @ Itoa (port m + 10000))] \<and>
   (snd (runMaster e m) = Blocked \<longrightarrow>
      filter is_bind (fst (runMaster e m)) =
        [NewListener (ipBind m @ '':'' @ Itoa (port m)),
         NewListener (ipBind m @ '':'' @ Itoa (port m + 10000))] \<and>
      Infof ''Start Seaweed Master %s grpc server at %s:%d''
        [VERSION, StrArg (ipBind m), IntArg (port m + 10000)] \<in> set (fst (runMaster e m)) \<and>
      GoGrpcServe (ipBind m @ '':'' @ Itoa (port m + 10000)) \<in> set (fst (runMaster e m))) \<and>
   (sint (port m) \<le> 9223372036854765807 \<longrightarrow> sint (port m + 10000) = sint (port m) + 10000)"
proof -
  have "prefix (filter is_bind (fst (runMaster e m)))
     [NewListener (ipBind m @ '':'' @ Itoa (port m)),
      NewListener (ipBind m @ '':'' @ Itoa (port m + 10000))]"
    by (rule runMaster_paths [of e m]) simp_all
  moreover have "snd (runMaster e m) = Blocked \<longrightarrow>
      filter is_bind (fst (runMaster e m)) =
        [NewListener (ipBind m @ '':'' @ Itoa (port m)),
         NewListener (ipBind m @ '':'' @ Itoa (port m + 10000))] \<and>
      Infof ''Start Seaweed Master %s grpc server at %s:%d''
        [VERSION, StrArg (ipBind m), IntArg (port m + 10000)] \<in> set (fst (runMaster e m)) \<and>
      GoGrpcServe (ipBind m @ '':'' @ Itoa (port m + 10000)) \<in> set (fst (runMaster e m))"
    by (rule runMaster_paths [of e m]) simp_all
  ultimately show ?thesis using grpc_no_wrap [of "port m"] by simp
qed

theorem grpc_port_offset_witness:
  "snd (runMaster obliging flagDefaults) = Blocked \<and>
   filter is_bind (fst (runMaster obliging flagDefaults)) =
     [NewListener ''0.0.0.0:9333'', NewListener ''0.0.0.0:19333''] \<and>
   sint (9333 :: 64 word) \<le> 9223372036854765807 \<and>
   sint (port flagDefaults + 10000) = 19333"
proof -
  have b: "snd (runMaster obliging flagDefaults) = Blocked"
    by (simp add: default_run)
  have p: "port flagDefaults = 9333" "ipBind flagDefaults = ''0.0.0.0''"
    by (simp_all add: flagDefaults_def)
  have s: "sint (9333 :: 64 word) = 9333" "(9333 :: 64 word) + 10000 = 19333"
    by simp_all
  show ?thesis
    using grpc_port_offset [of obliging flagDefaults] b
    by (simp add: p s Itoa_9333 Itoa_19333)
qed

text \<open>
  C5. For every configured \<^verbatim>\<open>volumeSizeLimitMB\<close>: with a value above 30000 the run
  ends fatally and no listener is bound in it (where the meta folder is writable, the
  last call is the fatal message about the limit). With a value of at most 30000 and a
  writable meta folder, the check passes and the run goes on with \<^verbatim>\<open>startMaster\<close>.
\<close>

theorem volume_size_limit_check:
  "(30000 < unat (volumeSizeLimitMB m) \<longrightarrow>
      snd (runMaster e m) = Fatal \<and> \<not> list_ex is_bind (fst (runMaster e m)) \<and>
      (folderWritable e (metaFolder m) \<longrightarrow>
         last (fst (runMaster e m)) =
           Fatalf ''volumeSizeLimitMB should be smaller than 30000'')) \<and>
   (unat (volumeSizeLimitMB m) \<le> 30000 \<and> folderWritable e (metaFolder m) \<longrightarrow>
      runMaster e m =
        ([LoadConfiguration ''security'' False, LoadConfiguration ''master'' False,
          GOMAXPROCS, SetupProfiling, TestFolderWritable (metaFolder m)] @
         fst (startMaster e m
                (if whiteList m \<noteq> [] then Split (whiteList m) CHR '','' else [])),
         snd (startMaster e m
                (if whiteList m \<noteq> [] then Split (whiteList m) CHR '','' else []))))"
proof -
  have "30000 < unat (volumeSizeLimitMB m) \<longrightarrow>
      snd (runMaster e m) = Fatal \<and> \<not> list_ex is_bind (fst (runMaster e m)) \<and>
      (folderWritable e (metaFolder m) \<longrightarrow>
         last (fst (runMaster e m)) =
           Fatalf ''volumeSizeLimitMB should be smaller than 30000'')"
    by (rule runMaster_paths [of e m]) simp_all
  moreover have "unat (volumeSizeLimitMB m) \<le> 30000 \<and> folderWritable e (metaFolder m) \<longrightarrow>
      runMaster e m =
        ([LoadConfiguration ''security'' False, LoadConfiguration ''master'' False,
          GOMAXPROCS, SetupProfiling, TestFolderWritable (metaFolder m)] @
         fst (startMaster e m
                (if whiteList m \<noteq> [] then Split (whiteList m) CHR '','' else [])),
         snd (startMaster e m
                (if whiteList m \<noteq> [] then Split (whiteList m) CHR '','' else [])))"
    by (simp add: runMaster_def Let_def limit_check split: prod.splits)
  ultimately show ?thesis by blast
qed

theorem volume_size_limit_check_witness:
  "snd (runMaster obliging (flagDefaults\<lparr>volumeSizeLimitMB := 30001\<rparr>)) = Fatal \<and>
   \<not> list_ex is_bind (fst (runMaster obliging (flagDefaults\<lparr>volumeSizeLimitMB := 30001\<rparr>))) \<and>
   last (fst (runMaster obliging (flagDefaults\<lparr>volumeSizeLimitMB := 30001\<rparr>))) =
     Fatalf ''volumeSizeLimitMB should be smaller than 30000'' \<and>
   runMaster obliging flagDefaults =
     ([LoadConfiguration ''security'' False, LoadConfiguration ''master'' False,
       GOMAXPROCS, SetupProfiling, TestFolderWritable ''/tmp''] @
      fst (startMaster obliging flagDefaults []), snd (startMaster obliging flagDefaults []))"
proof -
  have big: "30000 < unat (volumeSizeLimitMB (flagDefaults\<lparr>volumeSizeLimitMB := 30001\<rparr>))"
    by simp
  have ok: "unat (volumeSizeLimitMB flagDefaults) \<le> 30000"
    by (simp add: flagDefaults_def)
  have w: "folderWritable obliging d" for d
    by (simp add: obliging_def)
  have f: "metaFolder flagDefaults = ''/tmp''" "whiteList flagDefaults = []"
    by (simp_all add: flagDefaults_def)
  from volume_size_limit_check [of "flagDefaults\<lparr>volumeSizeLimitMB := 30001\<rparr>" obliging] big w
  have "snd (runMaster obliging (flagDefaults\<lparr>volumeSizeLimitMB := 30001\<rparr>)) = Fatal \<and>
   \<not> list_ex is_bind (fst (runMaster obliging (flagDefaults\<lparr>volumeSizeLimitMB := 30001\<rparr>))) \<and>
   last (fst (runMaster obliging (flagDefaults\<lparr>volumeSizeLimitMB := 30001\<rparr>))) =
     Fatalf ''volumeSizeLimitMB should be smaller than 30000''"
    by blast
  moreover from volume_size_limit_check [of flagDefaults obliging] ok w
  have "runMaster obliging flagDefaults =
     ([LoadConfiguration ''security'' False, LoadConfiguration ''master'' False,
       GOMAXPROCS, SetupProfiling, TestFolderWritable ''/tmp''] @
      fst (startMaster obliging flagDefaults []), snd (startMaster obliging flagDefaults []))"
    by (simp add: f)
  ultimately show ?thesis by blast
qed

text \<open>
  C6. In every run, each listener bind comes after the writable check of the meta
  folder, and a bind occurs only if that check succeeded; if the check fails, the run
  ends fatally and binds no listener.
\<close>

theorem writable_check_before_bind:
  "(\<not> folderWritable e (metaFolder m) \<longrightarrow>
      snd (runMaster e m) = Fatal \<and> \<not> list_ex is_bind (fst (runMaster e m))) \<and>
   (list_ex is_bind (fst (runMaster e m)) \<longrightarrow>
      folderWritable e (metaFolder m) \<and>
      list_ex is_writable_check (fst (runMaster e m))) \<and>
   all_before is_writable_check is_bind (fst (runMaster e m))"
  by (rule runMaster_paths [of e m]) simp_all

theorem writable_check_before_bind_witness:
  "snd (runMaster unwritable flagDefaults) = Fatal \<and>
   \<not> list_ex is_bind (fst (runMaster unwritable flagDefaults)) \<and>
   list_ex is_bind (fst (runMaster obliging flagDefaults)) \<and>
   folderWritable obliging (metaFolder flagDefaults) \<and>
   list_ex is_writable_check (fst (runMaster obliging flagDefaults)) \<and>
   all_before is_writable_check is_bind (fst (runMaster obliging flagDefaults))"
proof -
  have "\<not> folderWritable unwritable (metaFolder flagDefaults)"
    by (simp add: unwritable_def)
  moreover have "list_ex is_bind (fst (runMaster obliging flagDefaults))"
    by (simp add: default_run)
  ultimately show ?thesis
    using writable_check_before_bind [of unwritable flagDefaults]
      writable_check_before_bind [of obliging flagDefaults]
    by blast
qed

text \<open>
  C7, as the code has it. In every run the management service is constructed before
  any listener is bound, and both listeners are bound before the RPC server is
  constructed, before any service is registered on it and before any serve call. The
  binds and the steps on the two services come in this order: management service
  constructed, management listener bound, raft service constructed, raft service
  attached to the management service, RPC listener bound; a run that ends early has
  made a first part of these calls, a run that reaches the serve calls all of them.
\<close>

theorem binds_and_services_order:
  "all_before is_management_construct is_bind (fst (runMaster e m)) \<and>
   all_before is_bind is_rpc_step (fst (runMaster e m)) \<and>
   all_before is_bind is_serve (fst (runMaster e m)) \<and>
   (\<exists>opt ps a.
      prefix (filter (\<lambda>ev. is_bind ev \<or> is_service_step ev) (fst (runMaster e m)))
        [NewMasterServer opt ps,
         NewListener (ipBind m @ '':'' @ Itoa (port m)),
         NewRaftServer ps a (metaFolder m) (pulseSeconds m),
         SetRaftServer,
         NewListener (ipBind m @ '':'' @ Itoa (port m + 10000))] \<and>
      (snd (runMaster e m) = Blocked \<longrightarrow>
         filter (\<lambda>ev. is_bind ev \<or> is_service_step ev) (fst (runMaster e m)) =
           [NewMasterServer opt ps,
            NewListener (ipBind m @ '':'' @ Itoa (port m)),
            NewRaftServer ps a (metaFolder m) (pulseSeconds m),
            SetRaftServer,
            NewListener (ipBind m @ '':'' @ Itoa (port m + 10000))]))"
proof -
  have "all_before is_management_construct is_bind (fst (runMaster e m))"
    by (rule runMaster_paths [of e m]) simp_all
  moreover have "all_before is_bind is_rpc_step (fst (runMaster e m))"
    by (rule runMaster_paths [of e m]) (simp_all add: is_rpc_step_def)
  moreover have "all_before is_bind is_serve (fst (runMaster e m))"
    by (rule runMaster_paths [of e m]) simp_all
  moreover have "\<exists>opt ps a.
      prefix (filter (\<lambda>ev. is_bind ev \<or> is_service_step ev) (fst (runMaster e m)))
        [NewMasterServer opt ps,
         NewListener (ipBind m @ '':'' @ Itoa (port m)),
         NewRaftServer ps a (metaFolder m) (pulseSeconds m),
         SetRaftServer,
         NewListener (ipBind m @ '':'' @ Itoa (port m + 10000))] \<and>
      (snd (runMaster e m) = Blocked \<longrightarrow>
         filter (\<lambda>ev. is_bind ev \<or> is_service_step ev) (fst (runMaster e m)) =
           [NewMasterServer opt ps,
            NewListener (ipBind m @ '':'' @ Itoa (port m)),
            NewRaftServer ps a (metaFolder m) (pulseSeconds m),
            SetRaftServer,
            NewListener (ipBind m @ '':'' @ Itoa (port m + 10000))])"
    by (rule runMaster_paths [of e m]) (simp_all add: is_service_step_def)
  ultimately show ?thesis by blast
qed

theorem binds_and_services_order_witness:
  "snd (runMaster obliging flagDefaults) = Blocked \<and>
   list_ex is_management_construct (fst (runMaster obliging flagDefaults)) \<and>
   list_ex is_bind (fst (runMaster obliging flagDefaults)) \<and>
   list_ex is_rpc_step (fst (runMaster obliging flagDefaults)) \<and>
   list_ex is_serve (fst (runMaster obliging flagDefaults)) \<and>
   all_before is_management_construct is_bind (fst (runMaster obliging flagDefaults)) \<and>
   all_before is_bind is_rpc_step (fst (runMaster obliging flagDefaults)) \<and>
   all_before is_bind is_serve (fst (runMaster obliging flagDefaults))"
proof -
  have "snd (runMaster obliging flagDefaults) = Blocked"
    by (simp add: default_run)
  moreover have "list_ex is_management_construct (fst (runMaster obliging flagDefaults))"
    "list_ex is_bind (fst (runMaster obliging flagDefaults))"
    "list_ex is_rpc_step (fst (runMaster obliging flagDefaults))"
    "list_ex is_serve (fst (runMaster obliging flagDefaults))"
    by (simp_all add: default_run is_rpc_step_def)
  ultimately show ?thesis
    using binds_and_services_order [of obliging flagDefaults] by blast
qed

text \<open>
  With the flags' defaults, where every collaborator succeeds, a listener is bound
  after a service has been constructed: the binds do not all come before the steps on
  the management and the raft service.
\<close>

theorem binds_before_services_counterexample:
  "\<not> all_before is_bind is_service_step (fst (runMaster obliging flagDefaults))"
  by (simp add: default_run is_service_step_def)

text \<open>
  C8. In every run, the management service is constructed before the raft service,
  the raft service before it is attached to the management service, the attachment
  before the registrations on the RPC server, and the registrations before any serve
  call on either listener. A run that reaches the serve calls has made these calls,
  each once, in exactly this order.
\<close>

theorem bootstrap_total_order:
  "all_before is_management_construct is_raft_construct (fst (runMaster e m)) \<and>
   all_before is_raft_construct is_wiring (fst (runMaster e m)) \<and>
   all_before is_wiring is_registration (fst (runMaster e m)) \<and>
   all_before is_registration is_serve (fst (runMaster e m)) \<and>
   (snd (runMaster e m) = Blocked \<longrightarrow>
      (\<exists>opt ps a.
         filter (\<lambda>ev. is_service_step ev \<or> is_registration ev \<or> is_serve ev)
             (fst (runMaster e m)) =
           [NewMasterServer opt ps,
            NewRaftServer ps a (metaFolder m) (pulseSeconds m),
            SetRaftServer,
            RegisterSeaweedServer, RegisterRaftServer, ReflectionRegister,
            GoGrpcServe (ipBind m @ '':'' @ Itoa (port m + 10000)),
            GoHttpServe (ipBind m @ '':'' @ Itoa (port m))]))"
  by (rule runMaster_paths [of e m]) (simp_all add: is_service_step_def)

theorem bootstrap_total_order_witness:
  "snd (runMaster obliging flagDefaults) = Blocked \<and>
   list_ex is_management_construct (fst (runMaster obliging flagDefaults)) \<and>
   list_ex is_raft_construct (fst (runMaster obliging flagDefaults)) \<and>
   list_ex is_wiring (fst (runMaster obliging flagDefaults)) \<and>
   list_ex is_registration (fst (runMaster obliging flagDefaults)) \<and>
   list_ex is_serve (fst (runMaster obliging flagDefaults)) \<and>
   all_before is_management_construct is_raft_construct (fst (runMaster obliging flagDefaults)) \<and>
   all_before is_raft_construct is_wiring (fst (runMaster obliging flagDefaults)) \<and>
   all_before is_wiring is_registration (fst (runMaster obliging flagDefaults)) \<and>
   all_before is_registration is_serve (fst (runMaster obliging flagDefaults))"
proof -
  have "snd (runMaster obliging flagDefaults) = Blocked"
    by (simp add: default_run)
  moreover have "list_ex is_management_construct (fst (runMaster obliging flagDefaults))"
    "list_ex is_raft_construct (fst (runMaster obliging flagDefaults))"
    "list_ex is_wiring (fst (runMaster obliging flagDefaults))"
    "list_ex is_registration (fst (runMaster obliging flagDefaults))"
    "list_ex is_serve (fst (runMaster obliging flagDefaults))"
    by (simp_all add: default_run)
  ultimately show ?thesis
    using bootstrap_total_order [of obliging flagDefaults] by blast
qed

text \<open>
  C9. Neither \<^verbatim>\<open>startMaster\<close> nor \<^verbatim>\<open>runMaster\<close> ever returns to its caller. A run
  that has started a goroutine has started all three (the gRPC server, the connection
  to the master, the HTTP server, in this order), makes no further call after the
  last one, and stays blocked for ever.
\<close>

theorem never_returns:
  "snd (startMaster e m wl) \<noteq> Returned \<and>
   snd (runMaster e m) \<noteq> Returned \<and>
   (list_ex is_go (fst (runMaster e m)) \<longrightarrow>
      snd (runMaster e m) = Blocked \<and>
      filter is_go (fst (runMaster e m)) =
        [GoGrpcServe (ipBind m @ '':'' @ Itoa (port m + 10000)),
         GoKeepConnectedToMaster,
         GoHttpServe (ipBind m @ '':'' @ Itoa (port m))] \<and>
      last (fst (runMaster e m)) = GoHttpServe (ipBind m @ '':'' @ Itoa (port m)))"
proof -
  have "snd (runMaster e m) \<noteq> Returned"
    by (rule runMaster_paths [of e m]) simp_all
  moreover have "list_ex is_go (fst (runMaster e m)) \<longrightarrow>
      snd (runMaster e m) = Blocked \<and>
      filter is_go (fst (runMaster e m)) =
        [GoGrpcServe (ipBind m @ '':'' @ Itoa (port m + 10000)),
         GoKeepConnectedToMaster,
         GoHttpServe (ipBind m @ '':'' @ Itoa (port m))] \<and>
      last (fst (runMaster e m)) = GoHttpServe (ipBind m @ '':'' @ Itoa (port m))"
    by (rule runMaster_paths [of e m]) simp_all
  ultimately show ?thesis using startMaster_not_Returned [of e m wl] by simp
qed

theorem never_returns_witness:
  "list_ex is_go (fst (runMaster obliging flagDefaults)) \<and>
   snd (runMaster obliging flagDefaults) = Blocked \<and>
   last (fst (runMaster obliging flagDefaults)) = GoHttpServe ''0.0.0.0:9333''"
proof -
  have "list_ex is_go (fst (runMaster obliging flagDefaults))"
    by (simp add: default_run)
  moreover have "ipBind flagDefaults @ '':'' @ Itoa (port flagDefaults) = ''0.0.0.0:9333''"
    by (simp add: flagDefaults_def Itoa_9333)
  ultimately show ?thesis
    using never_returns [of obliging flagDefaults "[]"] by simp
qed

text \<open>
  C10. In every run, the options the management service is constructed with hold, as
  white list, the empty (nil) list when the configured string is empty, not the list
  holding one empty string that \<^verbatim>\<open>strings.Split\<close> makes of the empty string, and the
  comma-separated entries of the configured string when it is not empty.
  \<^verbatim>\<open>toMasterOption\<close> passes the list on unchanged, and a run that reaches the serve
  calls has constructed the management service.
\<close>

theorem white_list_passed:
  "(\<forall>opt ps. NewMasterServer opt ps \<in> set (fst (runMaster e m)) \<longrightarrow>
      (whiteList m = [] \<longrightarrow> WhiteList opt = [] \<and> WhiteList opt \<noteq> [[]]) \<and>
      (whiteList m \<noteq> [] \<longrightarrow> WhiteList opt = Split (whiteList m) CHR '','')) \<and>
   (snd (runMaster e m) = Blocked \<longrightarrow>
      list_ex is_management_construct (fst (runMaster e m))) \<and>
   WhiteList (toMasterOption m wl) = wl \<and>
   Split [] CHR '','' = [[]]"
proof -
  have "\<forall>opt ps. NewMasterServer opt ps \<in> set (fst (runMaster e m)) \<longrightarrow>
      (whiteList m = [] \<longrightarrow> WhiteList opt = [] \<and> WhiteList opt \<noteq> [[]]) \<and>
      (whiteList m \<noteq> [] \<longrightarrow> WhiteList opt = Split (whiteList m) CHR '','')"
    by (rule runMaster_paths [of e m]) (auto simp: toMasterOption_def)
  moreover have "snd (runMaster e m) = Blocked \<longrightarrow>
      list_ex is_management_construct (fst (runMaster e m))"
    by (rule runMaster_paths [of e m]) simp_all
  ultimately show ?thesis by (simp add: toMasterOption_def)
qed

theorem white_list_passed_witness:
  "NewMasterServer (toMasterOption flagDefaults []) [''localhost:9333'']
     \<in> set (fst (runMaster obliging flagDefaults)) \<and>
   WhiteList (toMasterOption flagDefaults []) = [] \<and>
   NewMasterServer
     (toMasterOption (flagDefaults\<lparr>whiteList := ''10.0.0.1,10.0.0.2''\<rparr>)
        [''10.0.0.1'', ''10.0.0.2''])
     [''localhost:9333'']
     \<in> set (fst (runMaster obliging (flagDefaults\<lparr>whiteList := ''10.0.0.1,10.0.0.2''\<rparr>))) \<and>
   WhiteList
     (toMasterOption (flagDefaults\<lparr>whiteList := ''10.0.0.1,10.0.0.2''\<rparr>)
        [''10.0.0.1'', ''10.0.0.2'']) =
     Split (whiteList (flagDefaults\<lparr>whiteList := ''10.0.0.1,10.0.0.2''\<rparr>)) CHR '',''"
proof -
  let ?m = "flagDefaults\<lparr>whiteList := ''10.0.0.1,10.0.0.2''\<rparr>"
  have c: "checkPeers (ip flagDefaults) (port flagDefaults) (peers flagDefaults) =
      Inr (''localhost:9333'', [''localhost:9333''])"
    by (simp add: flagDefaults_def checkPeers_localhost)
  then have c': "checkPeers (ip ?m) (port ?m) (peers ?m) =
      Inr (''localhost:9333'', [''localhost:9333''])"
    by simp
  have v: "unat (volumeSizeLimitMB flagDefaults) \<le> 30000"
    by (simp add: flagDefaults_def)
  then have v': "unat (volumeSizeLimitMB ?m) \<le> 30000"
    by simp
  have e: "whiteList flagDefaults = []"
    by (simp add: flagDefaults_def)
  have n: "whiteList ?m \<noteq> []"
    by simp
  have m0: "NewMasterServer (toMasterOption flagDefaults []) [''localhost:9333'']
     \<in> set (fst (runMaster obliging flagDefaults))"
    using obliging_constructs_management [OF c v] by (simp add: e)
  have m1: "NewMasterServer (toMasterOption ?m [''10.0.0.1'', ''10.0.0.2'']) [''localhost:9333'']
     \<in> set (fst (runMaster obliging ?m))"
    using obliging_constructs_management [OF c' v'] by simp
  from white_list_passed [of obliging flagDefaults] m0 e
  have "WhiteList (toMasterOption flagDefaults []) = []"
    by blast
  moreover from white_list_passed [of obliging ?m] m1 n
  have "WhiteList (toMasterOption ?m [''10.0.0.1'', ''10.0.0.2'']) = Split (whiteList ?m) CHR '',''"
    by blast
  ultimately show ?thesis using m0 m1 by blast
qed

end
